theory Spec2Isabelle
  imports Main
begin

section \<open>Python strings\<close>

text \<open>
  A Python \<open>str\<close> is modelled as a \<open>string\<close>; a \<open>char\<close> stands for a code point
  below 256. The functions of this section are the \<open>str\<close> methods that
  \<open>ldap_searcher.py\<close> calls: \<open>strip()\<close>, \<open>splitlines()\<close>, \<open>split(",")\<close> and
  \<open>";".join(...)\<close>.
\<close>

text \<open>\<open>str.isspace\<close> on one character, for the code points below 256.\<close>

definition py_isspace :: "char \<Rightarrow> bool" where
  "py_isspace c = (c \<in> set [CHR 0x09, CHR 0x0A, CHR 0x0B, CHR 0x0C, CHR 0x0D,
                               CHR 0x1C, CHR 0x1D, CHR 0x1E, CHR 0x1F, CHR 0x20,
                               CHR 0x85, CHR 0xA0])"

text \<open>\<open>s.strip()\<close>: whitespace is removed at both ends.\<close>

definition strip :: "string \<Rightarrow> string" where
  "strip s = rev (dropWhile py_isspace (rev (dropWhile py_isspace s)))"

text \<open>The line boundaries of \<open>str.splitlines\<close>, for the code points below 256.\<close>

definition is_linebreak :: "char \<Rightarrow> bool" where
  "is_linebreak c = (c \<in> set [CHR 0x0A, CHR 0x0B, CHR 0x0C, CHR 0x0D,
                                 CHR 0x1C, CHR 0x1D, CHR 0x1E, CHR 0x85])"

text \<open>
  \<open>s.splitlines()\<close>: the text is cut at every line boundary, \<open>\r\n\<close> counting as
  one; the boundaries are dropped, and a boundary at the very end opens no further
  line. The first argument holds the characters of the line being read, reversed.
\<close>

fun splitlines_from :: "string \<Rightarrow> string \<Rightarrow> string list" where
  "splitlines_from cur [] = (if cur = [] then [] else [rev cur])"
| "splitlines_from cur (c # cs) =
     (if c = CHR 0x0D then
        (case cs of
           [] \<Rightarrow> rev cur # splitlines_from [] cs
         | d # ds \<Rightarrow> if d = CHR 0x0A then rev cur # splitlines_from [] ds
                     else rev cur # splitlines_from [] cs)
      else if is_linebreak c then rev cur # splitlines_from [] cs
      else splitlines_from (c # cur) cs)"

definition splitlines :: "string \<Rightarrow> string list" where
  "splitlines s = splitlines_from [] s"

text \<open>\<open>s.split(sep)\<close> for a separator of one character; the result is never empty.\<close>

fun split_on :: "char \<Rightarrow> string \<Rightarrow> string list" where
  "split_on sep [] = [[]]"
| "split_on sep (c # cs) =
     (if c = sep then [] # split_on sep cs
      else (c # hd (split_on sep cs)) # tl (split_on sep cs))"

text \<open>\<open>sep.join(xs)\<close>.\<close>

fun join :: "string \<Rightarrow> string list \<Rightarrow> string" where
  "join sep [] = []"
| "join sep [x] = x"
| "join sep (x # y # ys) = x @ sep @ join sep (y # ys)"

section \<open>The application state and the directory service\<close>

text \<open>An exception: the name of its class and its message.\<close>

datatype py_exception = PyException string string

text \<open>The message boxes of \<open>show_warning\<close> and \<open>show_error\<close>: title and message.\<close>

datatype dialog = ShowWarning string string | ShowError string string

text \<open>
  The calls made on the \<open>ldap3\<close> library, in the order they are made:
  \<open>Connection(server, user, password, auto_bind=True)\<close>,
  \<open>conn.search(search_base, search_filter, SUBTREE, attributes)\<close> and \<open>conn.unbind()\<close>.
\<close>

datatype ldap_event =
    Bind "string option" "string option" "string option"
  | Search string string "string list"
  | Unbind

text \<open>
  An entry of the directory, as a search returns it: \<open>r a = Some v\<close> when the entry
  has the attribute \<open>a\<close> and \<open>v\<close> is the text of its value, and \<open>r a = None\<close> when
  the entry has no attribute \<open>a\<close>.
\<close>

type_synonym entry = "string \<rightharpoonup> string"

datatype search_outcome = Raises py_exception | Entries "entry list"

text \<open>
  The directory service behind \<open>ldap3\<close>, a parameter of the model.
  \<open>connection_result\<close> is what opening and binding the connection does (\<open>None\<close>: it
  succeeds); \<open>search_result n\<close> is what the search number \<open>n\<close> of a connection does for
  a base, a filter and a list of attributes: it raises, or leaves \<open>conn.entries\<close>.
\<close>

record ldap_service =
  connection_result :: "string option \<Rightarrow> string option \<Rightarrow> string option \<Rightarrow> py_exception option"
  search_result :: "nat \<Rightarrow> string \<Rightarrow> string \<Rightarrow> string list \<Rightarrow> search_outcome"

text \<open>
  The fields of \<open>LDAPSearcherApp\<close> that the search reads and writes. A text widget is
  its content; \<open>dialogs\<close> and \<open>ldap_calls\<close> record the message boxes shown and the
  library calls made.
\<close>

record app =
  search_field :: string
  search_base :: string
  search_attributes :: string
  left_textbox :: string
  right_textbox :: string
  ldap_server_properties :: "string \<rightharpoonup> (string \<rightharpoonup> string)"
  csv_export_button_active :: bool
  dialogs :: "dialog list"
  ldap_calls :: "ldap_event list"

text \<open>The dictionary returned by \<open>validate_search_parameters\<close>.\<close>

record search_params =
  field :: string
  base :: string
  attributes :: "string list"

definition show_warning :: "string \<Rightarrow> string \<Rightarrow> app \<Rightarrow> app" where
  "show_warning title message st = st\<lparr>dialogs := dialogs st @ [ShowWarning title message]\<rparr>"

definition show_error :: "string \<Rightarrow> py_exception \<Rightarrow> app \<Rightarrow> app" where
  "show_error title exc st =
     (case exc of PyException cls msg \<Rightarrow>
        st\<lparr>dialogs := dialogs st @ [ShowError title (cls @ '': '' @ msg)]\<rparr>)"

section \<open>validate_search_parameters\<close>

text \<open>\<open>[attr.strip() for attr in s.split(",")]\<close>.\<close>

definition split_attributes :: "string \<Rightarrow> string list" where
  "split_attributes s = map strip (split_on CHR '','' s)"

definition validate_search_parameters :: "app \<Rightarrow> search_params option \<times> app" where
  "validate_search_parameters st =
     (let fld = search_field st; bse = search_base st; attrs = search_attributes st in
      if fld = [] \<or> fld = ''LDAP field to search'' then
        (None, show_warning ''Invalid Input'' ''Search field is required.'' st)
      else if bse = [] \<or> bse = ''LDAP search base'' then
        (None, show_warning ''Invalid Input'' ''Search base is required.'' st)
      else if attrs = [] \<or> attrs = ''LDAP attributes to search (separated by commas)'' then
        (None, show_warning ''Invalid Input'' ''At least one search attribute is required.'' st)
      else
        (Some \<lparr>field = fld, base = bse,
               attributes = split_attributes (fld @ '','' @ attrs)\<rparr>, st))"

section \<open>perform_ldap_search\<close>

text \<open>\<open>f"({search_params['field']}={entry})"\<close>.\<close>

definition search_filter :: "search_params \<Rightarrow> string \<Rightarrow> string" where
  "search_filter p ident = ''('' @ field p @ ''='' @ ident @ '')''"

text \<open>
  \<open>str(result[attr])\<close> for a requested attribute. The connection of line 200 keeps the
  defaults of \<open>ldap3\<close>, under which an entry of \<open>conn.entries\<close> carries every requested
  attribute, without a value when the directory entry has none; the text of an
  attribute without a value is \<open>[]\<close>. The lookup of a requested attribute does not
  raise.
\<close>

definition getitem :: "entry \<Rightarrow> string \<Rightarrow> string" where
  "getitem r attr = (case r attr of None \<Rightarrow> ''[]'' | Some v \<Rightarrow> v)"

text \<open>The generator \<open>str(result[attr]) for attr in attributes\<close>.\<close>

definition project :: "string list \<Rightarrow> entry \<Rightarrow> string list" where
  "project attrs r = map (getitem r) attrs"

text \<open>\<open>self.right_textbox.insert(tk.END, text)\<close>.\<close>

definition right_textbox_insert :: "string \<Rightarrow> app \<Rightarrow> app" where
  "right_textbox_insert txt st = st\<lparr>right_textbox := right_textbox st @ txt\<rparr>"

text \<open>The loop over \<open>conn.entries\<close>.\<close>

fun insert_results :: "string list \<Rightarrow> entry list \<Rightarrow> app \<Rightarrow> app" where
  "insert_results attrs [] st = st"
| "insert_results attrs (r # rs) st =
     insert_results attrs rs
       (right_textbox_insert (join '';'' (project attrs r) @ [CHR 0x0A]) st)"

text \<open>
  The loop over the identifiers; \<open>n\<close> counts the searches already made on the
  connection. A function that can raise returns the exception, if any, and the state
  reached when it was raised.
\<close>

fun search_loop :: "ldap_service \<Rightarrow> search_params \<Rightarrow> nat \<Rightarrow> string list \<Rightarrow> app
                      \<Rightarrow> py_exception option \<times> app" where
  "search_loop svc p n [] st = (None, st)"
| "search_loop svc p n (ident # rest) st =
     (let flt = search_filter p ident;
          st1 = st\<lparr>ldap_calls := ldap_calls st @ [Search (base p) flt (attributes p)]\<rparr>
      in case search_result svc n (base p) flt (attributes p) of
           Raises e \<Rightarrow> (Some e, st1)
         | Entries es \<Rightarrow>
             search_loop svc p (Suc n) rest (insert_results (attributes p) es st1))"

text \<open>
  \<open>self.left_textbox.get("1.0", tk.END).strip().splitlines()\<close>; a Tk text widget
  returns its content followed by a newline.
\<close>

definition identifiers :: "app \<Rightarrow> string list" where
  "identifiers st = splitlines (strip (left_textbox st @ [CHR 0x0A]))"

text \<open>\<open>d.get(k, {})\<close> followed by \<open>.get(k')\<close>.\<close>

definition property :: "app \<Rightarrow> string \<Rightarrow> string \<Rightarrow> string option" where
  "property st section key =
     (case ldap_server_properties st section of None \<Rightarrow> None | Some d \<Rightarrow> d key)"

text \<open>The body of the \<open>try\<close> statement.\<close>

definition search_body :: "ldap_service \<Rightarrow> search_params \<Rightarrow> app \<Rightarrow> py_exception option \<times> app" where
  "search_body svc p st =
     (let host = property st ''server'' ''server'';
          user = property st ''credentials'' ''username'';
          password = property st ''credentials'' ''password'';
          st1 = st\<lparr>ldap_calls := ldap_calls st @ [Bind host user password]\<rparr>
      in case connection_result svc host user password of
           Some e \<Rightarrow> (Some e, st1)
         | None \<Rightarrow>
             (let attrs = attributes p;
                  st2 = right_textbox_insert (join '';'' attrs @ [CHR 0x0A]) st1
              in case search_loop svc p 0 (identifiers st2) st2 of
                   (Some e, st3) \<Rightarrow> (Some e, st3)
                 | (None, st3) \<Rightarrow>
                     (None, st3\<lparr>ldap_calls := ldap_calls st3 @ [Unbind],
                                 csv_export_button_active := True\<rparr>)))"

definition perform_ldap_search :: "ldap_service \<Rightarrow> app \<Rightarrow> app" where
  "perform_ldap_search svc st =
     (case validate_search_parameters st of
        (None, st1) \<Rightarrow> st1
      | (Some p, st1) \<Rightarrow>
          (case search_body svc p (st1\<lparr>right_textbox := []\<rparr>) of
             (None, st2) \<Rightarrow> st2
           | (Some e, st2) \<Rightarrow> show_error ''LDAP Search Error'' e st2))"

section \<open>Notions used to state the properties\<close>

text \<open>The entry has every attribute of the list.\<close>

definition holds_all :: "string list \<Rightarrow> entry \<Rightarrow> bool" where
  "holds_all attrs r = list_all (\<lambda>a. r a \<noteq> None) attrs"

text \<open>The line of text written for an entry, and the header line.\<close>

definition row_line :: "string list \<Rightarrow> entry \<Rightarrow> string" where
  "row_line attrs r = join '';'' (project attrs r) @ [CHR 0x0A]"

definition header_line :: "search_params \<Rightarrow> string" where
  "header_line p = join '';'' (attributes p) @ [CHR 0x0A]"

text \<open>The library calls of one run: the bind and the search for an identifier.\<close>

definition bind_event :: "app \<Rightarrow> ldap_event" where
  "bind_event st = Bind (property st ''server'' ''server'')
                        (property st ''credentials'' ''username'')
                        (property st ''credentials'' ''password'')"

definition search_event :: "search_params \<Rightarrow> string \<Rightarrow> ldap_event" where
  "search_event p ident = Search (base p) (search_filter p ident) (attributes p)"

text \<open>The service accepts the connection that the application opens.\<close>

definition connects :: "ldap_service \<Rightarrow> app \<Rightarrow> bool" where
  "connects svc st = (connection_result svc (property st ''server'' ''server'')
                        (property st ''credentials'' ''username'')
                        (property st ''credentials'' ''password'') = None)"

text \<open>The state in which the loop over the identifiers starts.\<close>

definition session_start :: "search_params \<Rightarrow> app \<Rightarrow> app" where
  "session_start p st = st\<lparr>right_textbox := header_line p,
                             ldap_calls := ldap_calls st @ [bind_event st]\<rparr>"



text \<open>
  The escaping of a filter value that the specification asks of \<open>buildFilter\<close>: a
  parenthesis, a backslash, an asterisk and the null character are each replaced by a
  backslash and the two hexadecimal digits of the character.
\<close>

definition filter_reserved :: "char \<Rightarrow> bool" where
  "filter_reserved c = (c \<in> set [CHR ''('', CHR '')'', CHR 0x5C, CHR ''*'', CHR 0x00])"

definition unreserved :: "string \<Rightarrow> bool" where
  "unreserved v = list_all (\<lambda>c. \<not> filter_reserved c) v"

definition escape_filter_char :: "char \<Rightarrow> string" where
  "escape_filter_char c =
     (if c = CHR ''('' then CHR 0x5C # ''28''
      else if c = CHR '')'' then CHR 0x5C # ''29''
      else if c = CHR 0x5C then CHR 0x5C # ''5c''
      else if c = CHR ''*'' then CHR 0x5C # ''2a''
      else if c = CHR 0x00 then CHR 0x5C # ''00''
      else [c])"

definition spec_buildFilter :: "string \<Rightarrow> string \<Rightarrow> string" where
  "spec_buildFilter fld v = ''('' @ fld @ ''='' @ concat (map escape_filter_char v) @ '')''"

text \<open>
  The identifiers as the specification reads the input: one per line, trimmed, the
  blank ones left out.
\<close>

definition spec_identifiers :: "string \<Rightarrow> string list" where
  "spec_identifiers txt = filter (\<lambda>l. l \<noteq> []) (map strip (splitlines txt))"

section \<open>A concrete directory and a concrete form\<close>

text \<open>
  The form filled in with the field \<open>uid\<close>, the base \<open>dc=example,dc=com\<close> and the
  attributes \<open>cn,mail\<close>; the arguments are the identifier text and the text already
  in the results box.
\<close>

definition example_app :: "string \<Rightarrow> string \<Rightarrow> app" where
  "example_app ids old =
     \<lparr>search_field = ''uid'', search_base = ''dc=example,dc=com'', search_attributes = ''cn,mail'',
      left_textbox = ids, right_textbox = old,
      ldap_server_properties =
        [''server'' \<mapsto> [''server'' \<mapsto> ''ldap.example.com''],
         ''credentials'' \<mapsto> [''username'' \<mapsto> ''u'', ''password'' \<mapsto> ''p'']],
      csv_export_button_active = False, dialogs = [], ldap_calls = []\<rparr>"

definition example_params :: search_params where
  "example_params =
     \<lparr>field = ''uid'', base = ''dc=example,dc=com'', attributes = [''uid'', ''cn'', ''mail'']\<rparr>"

definition example_bind :: ldap_event where
  "example_bind = Bind (Some ''ldap.example.com'') (Some ''u'') (Some ''p'')"

definition example_search :: "string \<Rightarrow> ldap_event" where
  "example_search flt = Search ''dc=example,dc=com'' flt [''uid'', ''cn'', ''mail'']"

text \<open>A service that accepts every connection and answers a search by its number and filter.\<close>

definition example_service :: "(nat \<Rightarrow> string \<Rightarrow> search_outcome) \<Rightarrow> ldap_service" where
  "example_service answer =
     \<lparr>connection_result = (\<lambda>host user password. None),
      search_result = (\<lambda>n bse flt attrs. answer n flt)\<rparr>"

definition jdoe :: entry where
  "jdoe = [''uid'' \<mapsto> ''jdoe'', ''cn'' \<mapsto> ''John Doe'', ''mail'' \<mapsto> ''jdoe@example.com'']"


definition asmith :: entry where
  "asmith = [''uid'' \<mapsto> ''asmith'', ''cn'' \<mapsto> ''Anna Smith'', ''mail'' \<mapsto> ''asmith@example.com'']"

definition timeout :: py_exception where
  "timeout = PyException ''LDAPSocketReceiveError'' ''timed out''"

definition no_match :: "nat \<Rightarrow> string \<Rightarrow> search_outcome" where
  "no_match n flt = Entries []"

definition always_jdoe :: "nat \<Rightarrow> string \<Rightarrow> search_outcome" where
  "always_jdoe n flt = Entries [jdoe]"

definition jdoe_only :: "nat \<Rightarrow> string \<Rightarrow> search_outcome" where
  "jdoe_only n flt = (if flt = ''(uid=jdoe)'' then Entries [jdoe] else Entries [])"


definition jdoe_then_both :: "nat \<Rightarrow> string \<Rightarrow> search_outcome" where
  "jdoe_then_both n flt = (if n = 0 then Entries [jdoe] else Entries [jdoe, asmith])"


definition always_timeout :: "nat \<Rightarrow> string \<Rightarrow> search_outcome" where
  "always_timeout n flt = Raises timeout"

definition timeout_first :: "nat \<Rightarrow> string \<Rightarrow> search_outcome" where
  "timeout_first n flt = (if n = 0 then Raises timeout else Entries [jdoe])"

definition timeout_second :: "nat \<Rightarrow> string \<Rightarrow> search_outcome" where
  "timeout_second n flt = (if n = 0 then Entries [jdoe] else Raises timeout)"

section \<open>Auxiliary facts\<close>

lemma split_on_not_Nil: "split_on sep s \<noteq> []"
  by (induction s) auto

lemma split_on_append_sep:
  "split_on sep (xs @ sep # ys) = split_on sep xs @ split_on sep ys"
proof (induction xs)
  case Nil
  show ?case by simp
next
  case (Cons x xs)
  have ne: "split_on sep xs \<noteq> []" by (rule split_on_not_Nil)
  show ?case
  proof (cases "x = sep")
    case True
    with Cons show ?thesis by simp
  next
    case False
    with Cons ne show ?thesis by (cases "split_on sep xs") auto
  qed
qed

lemma split_on_no_sep: "sep \<notin> set s \<Longrightarrow> split_on sep s = [s]"
  by (induction s) auto

lemma split_attributes_prepend:
  "split_attributes (fld @ CHR '','' # attrs) = split_attributes fld @ split_attributes attrs"
  by (simp add: split_attributes_def split_on_append_sep)

lemma validate_Some:
  "validate_search_parameters st = (Some p, st') \<Longrightarrow>
     st' = st \<and> field p = search_field st \<and> base p = search_base st \<and>
     attributes p = split_attributes (search_field st @ CHR '','' # search_attributes st)"
  by (auto simp: validate_search_parameters_def Let_def split: if_splits)

lemma effective_attributes_plain_field:
  assumes "validate_search_parameters st = (Some p, st')"
    and "CHR '','' \<notin> set (search_field st)" and "strip (search_field st) = search_field st"
  shows "attributes p = field p # split_attributes (search_attributes st)"
proof -
  from validate_Some [OF assms(1)]
  have f: "field p = search_field st"
    and a: "attributes p = split_attributes (search_field st) @ split_attributes (search_attributes st)"
    by (simp_all add: split_attributes_prepend)
  from assms(2,3) have "split_attributes (search_field st) = [search_field st]"
    by (simp add: split_attributes_def split_on_no_sep)
  with f a show ?thesis by simp
qed

lemma project_holds_all:
  "holds_all attrs r \<Longrightarrow> project attrs r = map (\<lambda>a. the (r a)) attrs"
  by (induction attrs) (auto simp: holds_all_def project_def getitem_def)

lemma insert_results_rows:
  "insert_results attrs es st =
     st\<lparr>right_textbox := right_textbox st @ concat (map (row_line attrs) es)\<rparr>"
  by (induction es arbitrary: st) (simp_all add: right_textbox_insert_def row_line_def)

lemma search_loop_append:
  "search_loop svc p n (xs @ ys) st =
     (case search_loop svc p n xs st of
        (Some e, st') \<Rightarrow> (Some e, st')
      | (None, st') \<Rightarrow> search_loop svc p (n + length xs) ys st')"
proof (induction xs arbitrary: n st)
  case Nil
  show ?case by simp
next
  case (Cons x xs)
  show ?case
    by (simp add: Let_def Cons.IH split: search_outcome.splits prod.splits option.splits)
qed

lemma search_loop_all_found:
  assumes "length ess = length ids"
    and "\<forall>i<length ids. search_result svc (n + i) (base p) (search_filter p (ids ! i)) (attributes p)
           = Entries (ess ! i)"
  shows "search_loop svc p n ids st =
     (None, st\<lparr>ldap_calls := ldap_calls st @ map (search_event p) ids,
                right_textbox := right_textbox st @ concat (map (row_line (attributes p)) (concat ess))\<rparr>)"
  using assms
proof (induction ids arbitrary: n st ess)
  case Nil
  then show ?case by simp
next
  case (Cons ident ids)
  from Cons.prems(1) obtain es ess' where ess: "ess = es # ess'" and len: "length ess' = length ids"
    by (cases ess) auto
  from Cons.prems(2) [rule_format, of 0] ess
  have first: "search_result svc n (base p) (search_filter p ident) (attributes p) = Entries es"
    by simp
  have rest: "\<forall>i<length ids. search_result svc (Suc n + i) (base p) (search_filter p (ids ! i)) (attributes p)
           = Entries (ess' ! i)"
  proof (intro allI impI)
    fix i assume "i < length ids"
    with Cons.prems(2) [rule_format, of "Suc i"] ess show
      "search_result svc (Suc n + i) (base p) (search_filter p (ids ! i)) (attributes p) = Entries (ess' ! i)"
      by simp
  qed
  show ?case
    by (simp add: Let_def first insert_results_rows Cons.IH [OF len rest] ess search_event_def)
qed

lemma search_loop_stops:
  assumes "length ess = length ids1"
    and "\<forall>i<length ids1. search_result svc (n + i) (base p) (search_filter p (ids1 ! i)) (attributes p)
           = Entries (ess ! i)"
    and "search_loop svc p (n + length ids1) [ident]
           (st\<lparr>ldap_calls := ldap_calls st @ map (search_event p) ids1,
               right_textbox := right_textbox st @ concat (map (row_line (attributes p)) (concat ess))\<rparr>)
         = (Some e, st')"
  shows "search_loop svc p n (ids1 @ ident # ids2) st = (Some e, st')"
proof -
  have "search_loop svc p n (ids1 @ [ident] @ ids2) st = (Some e, st')"
    unfolding search_loop_append [of svc p n ids1]
      search_loop_append [of svc p "n + length ids1" "[ident]"]
      search_loop_all_found [OF assms(1,2)]
    using assms(3) by simp
  then show ?thesis by simp
qed

lemma perform_valid:
  assumes "validate_search_parameters st = (Some p, st')" and "connects svc st"
  shows "perform_ldap_search svc st =
     (case search_loop svc p 0 (identifiers st) (session_start p st) of
        (Some e, st3) \<Rightarrow> show_error ''LDAP Search Error'' e st3
      | (None, st3) \<Rightarrow> st3\<lparr>ldap_calls := ldap_calls st3 @ [Unbind],
                              csv_export_button_active := True\<rparr>)"
proof -
  from validate_Some [OF assms(1)] have st': "st' = st" by simp
  let ?c = "st\<lparr>right_textbox := []\<rparr>"
  have pr: "property ?c = property st" by (simp add: property_def fun_eq_iff)
  have ids: "identifiers (right_textbox_insert (header_line p)
               (?c\<lparr>ldap_calls := ldap_calls ?c @ [bind_event st]\<rparr>)) = identifiers st"
    by (simp add: identifiers_def right_textbox_insert_def)
  have start: "right_textbox_insert (header_line p)
               (?c\<lparr>ldap_calls := ldap_calls ?c @ [bind_event st]\<rparr>) = session_start p st"
    by (simp add: session_start_def right_textbox_insert_def)
  from assms(2) have body: "search_body svc p ?c =
      (case search_loop svc p 0 (identifiers st) (session_start p st) of
         (Some e, st3) \<Rightarrow> (Some e, st3)
       | (None, st3) \<Rightarrow> (None, st3\<lparr>ldap_calls := ldap_calls st3 @ [Unbind],
                                      csv_export_button_active := True\<rparr>))"
    unfolding search_body_def Let_def pr connects_def
    using ids start by (simp add: bind_event_def header_line_def)
  show ?thesis
    by (simp add: perform_ldap_search_def assms(1) st' body split: prod.splits option.splits)
qed

lemma perform_all_found:
  assumes "validate_search_parameters st = (Some p, st')" and "connects svc st"
    and "length ess = length (identifiers st)"
    and "\<forall>i<length (identifiers st).
           search_result svc i (base p) (search_filter p (identifiers st ! i)) (attributes p)
             = Entries (ess ! i)"
  shows "perform_ldap_search svc st =
     st\<lparr>right_textbox := header_line p @ concat (map (row_line (attributes p)) (concat ess)),
         ldap_calls := ldap_calls st @ bind_event st # map (search_event p) (identifiers st) @ [Unbind],
         csv_export_button_active := True\<rparr>"
proof -
  from assms(4) have "\<forall>i<length (identifiers st).
           search_result svc (0 + i) (base p) (search_filter p (identifiers st ! i)) (attributes p)
             = Entries (ess ! i)" by simp
  from search_loop_all_found [OF assms(3) this, of "session_start p st"]
  show ?thesis
    by (simp add: perform_valid [OF assms(1,2)] session_start_def)
qed


lemma dropWhile_all: "list_all P xs \<Longrightarrow> dropWhile P xs = []"
  by (simp add: list_all_iff)


lemma strip_all_space: "list_all py_isspace s \<Longrightarrow> strip s = []"
  by (simp add: strip_def dropWhile_all)










lemma length_escape:
  "length (concat (map escape_filter_char v)) = length v + 2 * length (filter filter_reserved v)"
  by (induction v) (auto simp: escape_filter_char_def filter_reserved_def)

lemma escape_unreserved:
  "unreserved v \<Longrightarrow> concat (map escape_filter_char v) = v"
  by (induction v) (auto simp: unreserved_def escape_filter_char_def filter_reserved_def)

lemma escape_fixed_iff: "concat (map escape_filter_char v) = v \<longleftrightarrow> unreserved v"
proof
  assume "concat (map escape_filter_char v) = v"
  then have "length (concat (map escape_filter_char v)) = length v" by simp
  then have "filter filter_reserved v = []" by (simp add: length_escape)
  then show "unreserved v"
    by (simp add: unreserved_def filter_empty_conv list_all_iff)
next
  assume "unreserved v"
  then show "concat (map escape_filter_char v) = v" by (rule escape_unreserved)
qed

lemma validate_right_textbox:
  "validate_search_parameters (st\<lparr>right_textbox := old\<rparr>) =
     (fst (validate_search_parameters st), (snd (validate_search_parameters st))\<lparr>right_textbox := old\<rparr>)"
  by (simp add: validate_search_parameters_def Let_def show_warning_def)

lemmas run_defs =
  example_app_def example_service_def example_params_def example_bind_def example_search_def
  jdoe_def perform_ldap_search_def validate_search_parameters_def search_body_def
  property_def identifiers_def strip_def splitlines_def py_isspace_def is_linebreak_def
  search_filter_def split_attributes_def right_textbox_insert_def project_def getitem_def
  Let_def show_error_def show_warning_def

lemma example_validate:
  "validate_search_parameters (example_app ids old) = (Some example_params, example_app ids old)"
  by (simp add: run_defs)

lemma example_connects: "connects (example_service answer) (example_app ids old)"
  by (simp add: connects_def example_service_def)

section \<open>Properties of the search filter\<close>

text \<open>
  Claim C1, as the program has it: the filter submitted for an identifier is the field
  and the identifier put between \<open>(\<close>, \<open>=\<close> and \<open>)\<close> as they are, with nothing
  escaped. It is the filter with the value escaped exactly when the identifier has no
  reserved character; for the field \<open>uid\<close> and the identifier \<open>jdoe\<close> it is
  \<open>(uid=jdoe)\<close>.
\<close>

theorem search_filter_verbatim:
  "search_filter p v = ''('' @ field p @ ''='' @ v @ '')'' \<and>
   (search_filter p v = spec_buildFilter (field p) v \<longleftrightarrow> unreserved v) \<and>
   (field p = ''uid'' \<longrightarrow> search_filter p ''jdoe'' = ''(uid=jdoe)'')"
  using escape_fixed_iff [of v] by (auto simp: search_filter_def spec_buildFilter_def)

theorem search_filter_verbatim_witness:
  "field example_params = ''uid'' \<and> unreserved ''jdoe'' \<and>
   search_filter example_params ''jdoe'' = spec_buildFilter ''uid'' ''jdoe'' \<and>
   search_filter example_params ''jdoe'' = ''(uid=jdoe)''"
proof -
  have f: "field example_params = ''uid''" by (simp add: example_params_def)
  have u: "unreserved ''jdoe''" by (simp add: unreserved_def filter_reserved_def)
  from search_filter_verbatim [of example_params "''jdoe''"] f u
  have "search_filter example_params ''jdoe'' = spec_buildFilter (field example_params) ''jdoe''"
    and "search_filter example_params ''jdoe'' = ''(uid=jdoe)''"
    by blast+
  with f u show ?thesis by (simp only:)
qed

text \<open>
  Claim C1 as it is written fails for the identifier \<open>a)\<close>: the filter submitted is
  \<open>(uid=a))\<close>, where the escaped one is \<open>(uid=a\29)\<close>.
\<close>

theorem closing_parenthesis_not_escaped:
  "ldap_calls (perform_ldap_search (example_service no_match) (example_app ''a)'' [])) =
     [example_bind, example_search ''(uid=a))'', Unbind] \<and>
   spec_buildFilter ''uid'' ''a)'' = ''(uid=a'' @ [CHR 0x5C] @ ''29)''"
  by (simp add: run_defs no_match_def spec_buildFilter_def escape_filter_char_def)

section \<open>Properties of the validation\<close>

text \<open>
  Claim C10: the validation returns no parameters exactly when the search field, the
  search base or the attributes input is empty or is its placeholder text; the search
  then opens no connection and makes no search.
\<close>

theorem validation_rejects_iff:
  "(fst (validate_search_parameters st) = None \<longleftrightarrow>
     (search_field st = [] \<or> search_field st = ''LDAP field to search'' \<or>
      search_base st = [] \<or> search_base st = ''LDAP search base'' \<or>
      search_attributes st = [] \<or>
      search_attributes st = ''LDAP attributes to search (separated by commas)'')) \<and>
   (fst (validate_search_parameters st) = None \<longrightarrow>
      ldap_calls (perform_ldap_search svc st) = ldap_calls st)"
  by (auto simp: perform_ldap_search_def validate_search_parameters_def Let_def show_warning_def)

theorem validation_rejects_iff_witness:
  "fst (validate_search_parameters
          ((example_app ''jdoe'' [])\<lparr>search_base := ''LDAP search base''\<rparr>)) = None \<and>
   ldap_calls (perform_ldap_search (example_service always_jdoe)
          ((example_app ''jdoe'' [])\<lparr>search_base := ''LDAP search base''\<rparr>)) = []"
proof -
  let ?st = "(example_app ''jdoe'' [])\<lparr>search_base := ''LDAP search base''\<rparr>"
  have b: "search_base ?st = ''LDAP search base''" by simp
  from validation_rejects_iff [of ?st "example_service always_jdoe"] b
  have "fst (validate_search_parameters ?st) = None"
    and "ldap_calls (perform_ldap_search (example_service always_jdoe) ?st) = ldap_calls ?st"
    by blast+
  then show ?thesis by (simp add: example_app_def)
qed

text \<open>
  Claim C7 asks for the search field followed by the attributes as the effective
  attribute list, for every valid input. For the field \<open>a,b\<close> the program returns the
  list that starts with \<open>a\<close> and \<open>b\<close>, while the field it searches with stays
  \<open>a,b\<close>: the field is joined to the attributes input before the split at the
  commas.
\<close>

theorem field_with_comma_is_split:
  "fst (validate_search_parameters ((example_app [] [])\<lparr>search_field := ''a,b''\<rparr>)) =
     Some \<lparr>field = ''a,b'', base = ''dc=example,dc=com'',
           attributes = [''a'', ''b'', ''cn'', ''mail'']\<rparr> \<and>
   split_attributes ''cn,mail'' = [''cn'', ''mail'']"
  by (simp add: run_defs)

section \<open>Properties of the results box\<close>

text \<open>
  Claim C9, as the program has it: a search whose parameters pass the validation
  empties the results box before it opens the connection, so that what it leaves does
  not depend on what the box held; a search that the validation rejects leaves the
  box as it was.
\<close>

theorem valid_search_clears_results:
  "(fst (validate_search_parameters st) \<noteq> None \<longrightarrow>
      perform_ldap_search svc (st\<lparr>right_textbox := old\<rparr>) = perform_ldap_search svc st) \<and>
   (fst (validate_search_parameters st) = None \<longrightarrow>
      right_textbox (perform_ldap_search svc st) = right_textbox st)"
proof (intro conjI impI)
  assume "fst (validate_search_parameters st) \<noteq> None"
  then obtain p st' where v: "validate_search_parameters st = (Some p, st')"
    by (cases "validate_search_parameters st") auto
  from validate_Some [OF v] have st': "st' = st" by simp
  show "perform_ldap_search svc (st\<lparr>right_textbox := old\<rparr>) = perform_ldap_search svc st"
    by (simp add: perform_ldap_search_def validate_right_textbox v st')
next
  assume "fst (validate_search_parameters st) = None"
  then show "right_textbox (perform_ldap_search svc st) = right_textbox st"
    by (auto simp: perform_ldap_search_def validate_search_parameters_def Let_def show_warning_def
             split: if_splits)
qed

theorem valid_search_clears_results_witness:
  "fst (validate_search_parameters (example_app ''jdoe'' [])) \<noteq> None \<and>
   perform_ldap_search (example_service always_timeout) (example_app ''jdoe'' ''old'') =
     perform_ldap_search (example_service always_timeout) (example_app ''jdoe'' []) \<and>
   right_textbox (perform_ldap_search (example_service always_timeout) (example_app ''jdoe'' ''old''))
     = ''uid;cn;mail'' @ [CHR 0x0A] \<and>
   fst (validate_search_parameters ((example_app ''jdoe'' ''old'')\<lparr>search_attributes := []\<rparr>)) = None \<and>
   right_textbox (perform_ldap_search (example_service always_timeout)
     ((example_app ''jdoe'' ''old'')\<lparr>search_attributes := []\<rparr>)) = ''old''"
proof -
  let ?svc = "example_service always_timeout"
  let ?bad = "(example_app ''jdoe'' ''old'')\<lparr>search_attributes := []\<rparr>"
  have v: "fst (validate_search_parameters (example_app ''jdoe'' [])) \<noteq> None"
    by (simp add: example_validate)
  have n: "fst (validate_search_parameters ?bad) = None"
    by (simp add: validate_search_parameters_def example_app_def Let_def)
  have upd: "(example_app ''jdoe'' [])\<lparr>right_textbox := ''old''\<rparr> = example_app ''jdoe'' ''old''"
    by (simp add: example_app_def)
  from valid_search_clears_results [of "example_app ''jdoe'' []" ?svc "''old''"] v
  have a: "perform_ldap_search ?svc (example_app ''jdoe'' ''old'') =
           perform_ldap_search ?svc (example_app ''jdoe'' [])"
    by (simp only: upd) blast
  from valid_search_clears_results [of ?bad ?svc] n
  have b: "right_textbox (perform_ldap_search ?svc ?bad) = right_textbox ?bad" by blast
  have c: "right_textbox (perform_ldap_search ?svc (example_app ''jdoe'' [])) = ''uid;cn;mail'' @ [CHR 0x0A]"
    by (simp add: run_defs always_timeout_def timeout_def)
  have d: "right_textbox ?bad = ''old''" by (simp add: example_app_def)
  from v a b c d n show ?thesis by (simp only:) simp
qed

text \<open>
  Claim C9 as it is written fails when the validation rejects the parameters: the
  rows of the earlier search stay in the results box.
\<close>

theorem rejected_search_keeps_results:
  "right_textbox (perform_ldap_search (example_service always_jdoe)
     ((example_app ''jdoe'' (''uid;cn;mail'' @ [CHR 0x0A] @ ''earlier;row;x'' @ [CHR 0x0A]))
        \<lparr>search_field := []\<rparr>))
   = ''uid;cn;mail'' @ [CHR 0x0A] @ ''earlier;row;x'' @ [CHR 0x0A]"
  by (simp add: run_defs)

section \<open>Properties of the identifier text\<close>




section \<open>Properties of the rows\<close>

text \<open>
  Claim C3, as the program has it: for every matched entry of every identifier, every
  cell of its row, the first one included, is the entry's own value of the attribute
  of its column; the identifier searched for is used in the filter only. With the
  field \<open>uid\<close> and the entry \<open>uid: jdoe, cn: John Doe, mail: jdoe@example.com\<close> the row
  is \<open>jdoe;John Doe;jdoe@example.com\<close>.
\<close>

theorem rows_hold_entry_values:
  assumes "validate_search_parameters st = (Some p, st')" and "connects svc st"
    and "length ess = length (identifiers st)"
    and "\<forall>i<length (identifiers st).
           search_result svc i (base p) (search_filter p (identifiers st ! i)) (attributes p)
             = Entries (ess ! i)"
    and "list_all (list_all (holds_all (attributes p))) ess"
  shows "right_textbox (perform_ldap_search svc st) =
           header_line p @
           concat (map (\<lambda>r. join '';'' (map (\<lambda>a. the (r a)) (attributes p)) @ [CHR 0x0A])
                       (concat ess))"
proof -
  have eq: "map (row_line (attributes p)) (concat ess) =
      map (\<lambda>r. join '';'' (map (\<lambda>a. the (r a)) (attributes p)) @ [CHR 0x0A]) (concat ess)"
  proof (rule map_cong [OF refl])
    fix r assume "r \<in> set (concat ess)"
    with assms(5) have "holds_all (attributes p) r" by (auto simp: list_all_iff)
    then show "row_line (attributes p) r =
        join '';'' (map (\<lambda>a. the (r a)) (attributes p)) @ [CHR 0x0A]"
      by (simp add: row_line_def project_holds_all)
  qed
  from perform_all_found [OF assms(1-4)]
  have "right_textbox (perform_ldap_search svc st) =
      header_line p @ concat (map (row_line (attributes p)) (concat ess))"
    by simp
  then show ?thesis by (simp only: eq)
qed

theorem rows_hold_entry_values_witness:
  "identifiers (example_app (''JDOE'' @ [CHR 0x0A] @ ''x'') []) = [''JDOE'', ''x''] \<and>
   list_all (list_all (holds_all (attributes example_params))) [[jdoe], [jdoe, asmith]] \<and>
   right_textbox (perform_ldap_search (example_service jdoe_then_both)
       (example_app (''JDOE'' @ [CHR 0x0A] @ ''x'') [])) =
     ''uid;cn;mail'' @ [CHR 0x0A] @ ''jdoe;John Doe;jdoe@example.com'' @ [CHR 0x0A] @
     ''jdoe;John Doe;jdoe@example.com'' @ [CHR 0x0A] @
     ''asmith;Anna Smith;asmith@example.com'' @ [CHR 0x0A]"
proof -
  let ?st = "example_app (''JDOE'' @ [CHR 0x0A] @ ''x'') []"
  let ?svc = "example_service jdoe_then_both"
  let ?ess = "[[jdoe], [jdoe, asmith]]"
  have i: "identifiers ?st = [''JDOE'', ''x'']" by (simp add: run_defs)
  have len: "length ?ess = length (identifiers ?st)" unfolding i by simp
  have found: "\<forall>k<length (identifiers ?st).
      search_result ?svc k (base example_params) (search_filter example_params (identifiers ?st ! k))
        (attributes example_params) = Entries (?ess ! k)"
    unfolding i by (simp add: example_service_def jdoe_then_both_def less_Suc_eq)
  have all: "list_all (list_all (holds_all (attributes example_params))) ?ess"
    by (simp add: holds_all_def example_params_def jdoe_def asmith_def)
  have "right_textbox (perform_ldap_search ?svc ?st) =
     ''uid;cn;mail'' @ [CHR 0x0A] @ ''jdoe;John Doe;jdoe@example.com'' @ [CHR 0x0A] @
     ''jdoe;John Doe;jdoe@example.com'' @ [CHR 0x0A] @
     ''asmith;Anna Smith;asmith@example.com'' @ [CHR 0x0A]"
    unfolding rows_hold_entry_values [OF example_validate example_connects len found all]
    by (simp add: header_line_def example_params_def jdoe_def asmith_def)
  with i all show ?thesis by blast
qed

text \<open>
  Claim C3 as it is written fails for the identifier \<open>JDOE\<close> when the directory
  answers with the entry whose \<open>uid\<close> is \<open>jdoe\<close>: the first cell of the row is
  \<open>jdoe\<close>, the value of the entry, not the identifier.
\<close>

theorem first_column_is_entry_value:
  "identifiers (example_app ''JDOE'' []) = [''JDOE''] \<and>
   right_textbox (perform_ldap_search (example_service always_jdoe) (example_app ''JDOE'' [])) =
     ''uid;cn;mail'' @ [CHR 0x0A] @ ''jdoe;John Doe;jdoe@example.com'' @ [CHR 0x0A]"
  by (simp add: run_defs always_jdoe_def)




section \<open>Properties of the batch\<close>

text \<open>
  Claim C8, as the program has it: in a search where no call raises, there is one
  search for every line of the trimmed identifier text, in the order of the text,
  between the bind and the unbind; the results box holds the header line and then one
  line for every entry, in the order of the identifiers and, for one identifier, in
  the order of the service.
\<close>

theorem rows_in_identifier_order:
  assumes "validate_search_parameters st = (Some p, st')" and "connects svc st"
    and "length ess = length (identifiers st)"
    and "\<forall>i<length (identifiers st).
           search_result svc i (base p) (search_filter p (identifiers st ! i)) (attributes p)
             = Entries (ess ! i)"
  shows "perform_ldap_search svc st =
     st\<lparr>right_textbox := header_line p @ concat (map (row_line (attributes p)) (concat ess)),
         ldap_calls := ldap_calls st @ bind_event st # map (search_event p) (identifiers st) @ [Unbind],
         csv_export_button_active := True\<rparr>"
  using assms by (rule perform_all_found)

theorem rows_in_identifier_order_witness:
  "identifiers (example_app (''a'' @ [CHR 0x0A] @ ''jdoe'') []) = [''a'', ''jdoe''] \<and>
   search_result (example_service jdoe_only) 0 (base example_params)
     (search_filter example_params ''a'') (attributes example_params) = Entries [] \<and>
   search_result (example_service jdoe_only) 1 (base example_params)
     (search_filter example_params ''jdoe'') (attributes example_params) = Entries [jdoe] \<and>
   perform_ldap_search (example_service jdoe_only) (example_app (''a'' @ [CHR 0x0A] @ ''jdoe'') []) =
     (example_app (''a'' @ [CHR 0x0A] @ ''jdoe'')
        (''uid;cn;mail'' @ [CHR 0x0A] @ ''jdoe;John Doe;jdoe@example.com'' @ [CHR 0x0A]))
       \<lparr>ldap_calls := [example_bind, example_search ''(uid=a)'', example_search ''(uid=jdoe)'', Unbind],
        csv_export_button_active := True\<rparr>"
proof -
  let ?txt = "''a'' @ [CHR 0x0A] @ ''jdoe''"
  let ?st = "example_app ?txt []"
  let ?svc = "example_service jdoe_only"
  let ?ess = "[[], [jdoe]]"
  have i: "identifiers ?st = [''a'', ''jdoe'']" by (simp add: run_defs)
  have s0: "search_result ?svc 0 (base example_params)
     (search_filter example_params ''a'') (attributes example_params) = Entries []"
    by (simp add: example_service_def jdoe_only_def search_filter_def example_params_def)
  have s1: "search_result ?svc 1 (base example_params)
     (search_filter example_params ''jdoe'') (attributes example_params) = Entries [jdoe]"
    by (simp add: example_service_def jdoe_only_def search_filter_def example_params_def)
  have len: "length ?ess = length (identifiers ?st)" unfolding i by simp
  have found: "\<forall>k<length (identifiers ?st).
      search_result ?svc k (base example_params) (search_filter example_params (identifiers ?st ! k))
        (attributes example_params) = Entries (?ess ! k)"
    unfolding i using s0 s1 by (simp add: less_Suc_eq)
  have "perform_ldap_search ?svc ?st =
     (example_app ?txt (''uid;cn;mail'' @ [CHR 0x0A] @ ''jdoe;John Doe;jdoe@example.com'' @ [CHR 0x0A]))
       \<lparr>ldap_calls := [example_bind, example_search ''(uid=a)'', example_search ''(uid=jdoe)'', Unbind],
        csv_export_button_active := True\<rparr>"
    unfolding rows_in_identifier_order [OF example_validate example_connects len found] i
    by (simp add: header_line_def row_line_def project_def getitem_def example_params_def jdoe_def
        search_event_def search_filter_def bind_event_def property_def example_app_def
        example_bind_def example_search_def)
  with i s0 s1 show ?thesis by blast
qed

text \<open>
  Claim C8 as it is written fails for the text of the three lines \<open>x\<close>, an empty line
  and \<open>y\<close>: it has two identifiers that are not blank, and three searches are made.
\<close>

theorem more_searches_than_identifiers:
  "spec_identifiers (''x'' @ [CHR 0x0A, CHR 0x0A] @ ''y'') = [''x'', ''y''] \<and>
   ldap_calls (perform_ldap_search (example_service always_jdoe)
     (example_app (''x'' @ [CHR 0x0A, CHR 0x0A] @ ''y'') [])) =
   [example_bind, example_search ''(uid=x)'', example_search ''(uid=)'',
    example_search ''(uid=y)'', Unbind] \<and>
   right_textbox (perform_ldap_search (example_service always_jdoe)
     (example_app (''x'' @ [CHR 0x0A, CHR 0x0A] @ ''y'') [])) =
   ''uid;cn;mail'' @ [CHR 0x0A] @ ''jdoe;John Doe;jdoe@example.com'' @ [CHR 0x0A]
     @ ''jdoe;John Doe;jdoe@example.com'' @ [CHR 0x0A]
     @ ''jdoe;John Doe;jdoe@example.com'' @ [CHR 0x0A]"
  by (simp add: run_defs always_jdoe_def spec_identifiers_def)

text \<open>
  Claim C2, as the program has it: a search that raises ends the batch. The rows of
  the identifiers before it stay in the results box, no identifier after it is
  searched, the connection is not unbound, and the error is shown in a dialog.
\<close>

theorem search_error_ends_batch:
  assumes "validate_search_parameters st = (Some p, st')" and "connects svc st"
    and "identifiers st = ids1 @ ident # ids2"
    and "length ess = length ids1"
    and "\<forall>i<length ids1.
           search_result svc i (base p) (search_filter p (ids1 ! i)) (attributes p) = Entries (ess ! i)"
    and "search_result svc (length ids1) (base p) (search_filter p ident) (attributes p) = Raises e"
  shows "perform_ldap_search svc st =
     show_error ''LDAP Search Error'' e
       (st\<lparr>right_textbox := header_line p @ concat (map (row_line (attributes p)) (concat ess)),
           ldap_calls := ldap_calls st @ bind_event st # map (search_event p) (ids1 @ [ident])\<rparr>)"
proof -
  from assms(5) have found: "\<forall>i<length ids1.
      search_result svc (0 + i) (base p) (search_filter p (ids1 ! i)) (attributes p) = Entries (ess ! i)"
    by simp
  let ?st = "session_start p st"
  have "search_loop svc p (0 + length ids1) [ident]
           (?st\<lparr>ldap_calls := ldap_calls ?st @ map (search_event p) ids1,
               right_textbox := right_textbox ?st @ concat (map (row_line (attributes p)) (concat ess))\<rparr>)
         = (Some e, st\<lparr>right_textbox := header_line p @ concat (map (row_line (attributes p)) (concat ess)),
           ldap_calls := ldap_calls st @ bind_event st # map (search_event p) (ids1 @ [ident])\<rparr>)"
    by (simp add: Let_def assms(6) session_start_def search_event_def)
  from search_loop_stops [OF assms(4) found this, of ids2]
  show ?thesis
    by (simp add: perform_valid [OF assms(1,2)] assms(3))
qed

theorem search_error_ends_batch_witness:
  "identifiers (example_app (''jdoe'' @ [CHR 0x0A] @ ''b'' @ [CHR 0x0A] @ ''c'') []) = [''jdoe''] @ ''b'' # [''c''] \<and>
   search_result (example_service timeout_second) (length [''jdoe'']) (base example_params)
     (search_filter example_params ''b'') (attributes example_params) = Raises timeout \<and>
   perform_ldap_search (example_service timeout_second)
       (example_app (''jdoe'' @ [CHR 0x0A] @ ''b'' @ [CHR 0x0A] @ ''c'') []) =
     (example_app (''jdoe'' @ [CHR 0x0A] @ ''b'' @ [CHR 0x0A] @ ''c'')
        (''uid;cn;mail'' @ [CHR 0x0A] @ ''jdoe;John Doe;jdoe@example.com'' @ [CHR 0x0A]))
       \<lparr>dialogs := [ShowError ''LDAP Search Error'' ''LDAPSocketReceiveError: timed out''],
        ldap_calls := [example_bind, example_search ''(uid=jdoe)'', example_search ''(uid=b)'']\<rparr>"
proof -
  let ?txt = "''jdoe'' @ [CHR 0x0A] @ ''b'' @ [CHR 0x0A] @ ''c''"
  let ?st = "example_app ?txt []"
  let ?svc = "example_service timeout_second"
  have i: "identifiers ?st = [''jdoe''] @ ''b'' # [''c'']" by (simp add: run_defs)
  have len: "length [[jdoe]] = length [''jdoe'']" by simp
  have found: "\<forall>k<length [''jdoe''].
      search_result ?svc k (base example_params) (search_filter example_params ([''jdoe''] ! k))
        (attributes example_params) = Entries ([[jdoe]] ! k)"
    by (simp add: example_service_def timeout_second_def)
  have r: "search_result ?svc (length [''jdoe'']) (base example_params)
     (search_filter example_params ''b'') (attributes example_params) = Raises timeout"
    by (simp add: example_service_def timeout_second_def)
  have "perform_ldap_search ?svc ?st =
     (example_app ?txt (''uid;cn;mail'' @ [CHR 0x0A] @ ''jdoe;John Doe;jdoe@example.com'' @ [CHR 0x0A]))
       \<lparr>dialogs := [ShowError ''LDAP Search Error'' ''LDAPSocketReceiveError: timed out''],
        ldap_calls := [example_bind, example_search ''(uid=jdoe)'', example_search ''(uid=b)'']\<rparr>"
    unfolding search_error_ends_batch [OF example_validate example_connects i len found r]
    by (simp add: header_line_def row_line_def project_def getitem_def example_params_def jdoe_def
        search_event_def search_filter_def bind_event_def property_def example_app_def
        example_bind_def example_search_def show_error_def timeout_def)
  with i r show ?thesis by blast
qed

text \<open>
  Claim C2 as it is written fails when the first of two searches times out: the
  second identifier, which the directory would match, is never searched and has no
  row.
\<close>

theorem timeout_aborts_batch:
  "identifiers (example_app (''a'' @ [CHR 0x0A] @ ''jdoe'') []) = [''a'', ''jdoe''] \<and>
   perform_ldap_search (example_service timeout_first) (example_app (''a'' @ [CHR 0x0A] @ ''jdoe'') []) =
     (example_app (''a'' @ [CHR 0x0A] @ ''jdoe'') (''uid;cn;mail'' @ [CHR 0x0A]))
       \<lparr>dialogs := [ShowError ''LDAP Search Error'' ''LDAPSocketReceiveError: timed out''],
        ldap_calls := [example_bind, example_search ''(uid=a)'']\<rparr>"
  by (simp add: run_defs timeout_first_def timeout_def)

section \<open>The connection\<close>

text \<open>
  Claim C4 asks for exactly one unbind in every search that opens a connection. When
  the search of an identifier raises, the program binds and never unbinds: the only
  \<open>conn.unbind()\<close> stands after the loop, inside the \<open>try\<close>.
\<close>

theorem no_unbind_after_search_error:
  "ldap_calls (perform_ldap_search (example_service always_timeout) (example_app ''jdoe'' [])) =
     [example_bind, example_search ''(uid=jdoe)''] \<and>
   count_list (ldap_calls (perform_ldap_search (example_service always_timeout)
     (example_app ''jdoe'' []))) Unbind = 0"
  by (simp add: run_defs always_timeout_def timeout_def)

end
